theory Spec2Isabelle
  imports Main "HOL-Library.Multiset"
begin

section \<open>The gallery backend: request handlers over a record store and a media host\<close>

text \<open>
  The development embeds the Express application of the repository (the file with the
  Group routes and the \<open>special\<close> field; \<open>server.js\<close> is the same application without
  them). Each route is a function from the state of the two collaborators (the MongoDB
  collections and the Cloudinary account, seen through the calls made to it) to a response
  and the state afterwards.

  The collaborators are not code of the repository. Their behaviour is a parameter
  (\<open>env\<close>): whether an upload or a destroy call resolves or rejects, how a date string is
  cast, and whether the store drops \<open>undefined\<close> keys of an update. Route parameters and
  the members of \<open>memoryIds\<close> are taken to be well-formed ObjectIds. The record store
  itself is taken to work: an insert or a save fails only for the reasons written out
  (a validator of the schema, a duplicate \<open>_id\<close>).
\<close>

subsection \<open>JavaScript values\<close>

text \<open>A JavaScript string is a sequence of UTF-16 code units, each given by its number
  (0 to 65535). \<open>js\<close> writes the string of an ASCII literal.\<close>

type_synonym jstring = "nat list"

definition js :: "string \<Rightarrow> jstring" where
  "js s = map of_char s"

text \<open>A field of a request body or of a document is a value or \<open>undefined\<close> (\<open>None\<close>).\<close>

datatype 'a promise = Resolves 'a | Rejects

definition truthy :: "jstring option \<Rightarrow> bool" where
  "truthy v = (case v of None \<Rightarrow> False | Some s \<Rightarrow> s \<noteq> [])"

text \<open>\<open>a || b\<close> on strings: \<open>a\<close> when it is a non-empty string, \<open>b\<close> otherwise.\<close>

definition js_or :: "jstring option \<Rightarrow> jstring option \<Rightarrow> jstring option" where
  "js_or a b = (if truthy a then a else b)"

text \<open>The code units \<open>String.prototype.trim\<close> strips: the WhiteSpace and LineTerminator
  productions of ECMAScript. These are TAB, LF, VT, FF, CR, SPACE, the no-break space
  U+00A0, the other space separators of Unicode (U+1680, U+2000 to U+200A, U+202F, U+205F,
  U+3000), the line and paragraph separators U+2028 and U+2029, and U+FEFF. All of them
  are single code units.\<close>

definition is_space :: "nat \<Rightarrow> bool" where
  "is_space c =
     (c = 0x09 \<or> c = 0x0A \<or> c = 0x0B \<or> c = 0x0C \<or> c = 0x0D \<or> c = 0x20
      \<or> c = 0xA0 \<or> c = 0x1680 \<or> (0x2000 \<le> c \<and> c \<le> 0x200A)
      \<or> c = 0x2028 \<or> c = 0x2029 \<or> c = 0x202F \<or> c = 0x205F \<or> c = 0x3000
      \<or> c = 0xFEFF)"

text \<open>\<open>String.prototype.trim\<close>, which the schema option \<open>trim: true\<close> applies on
  assignment: the white space at both ends is removed.\<close>

definition trim :: "jstring \<Rightarrow> jstring" where
  "trim s = rev (dropWhile is_space (rev (dropWhile is_space s)))"

subsection \<open>Data model\<close>

type_synonym oid = nat

text \<open>\<open>memorySchema\<close>: \<open>mem_id\<close> is the \<open>_id\<close> of the document, dates are milliseconds.\<close>

record memory =
  mem_id :: oid
  title :: "jstring option"
  date :: "int option"
  description :: "jstring option"
  imageUrl :: "jstring option"
  imagePublicId :: "jstring option"
  createdAt :: int
  special :: "jstring option"

text \<open>\<open>groupSchema\<close>.\<close>

record group =
  grp_id :: oid
  name :: "jstring option"
  group_description :: "jstring option"
  memoryIds :: "oid list option"
  group_createdAt :: int

text \<open>The file part of a multipart request, and what the storage engine makes of it
  (\<open>req.file.path\<close> is the URL, \<open>req.file.filename\<close> the public id).\<close>

record blob =
  blob_format :: string
  blob_bytes :: "nat list"

record file_info =
  path :: jstring
  filename :: jstring

record memory_body =
  b_title :: "jstring option"
  b_date :: "jstring option"
  b_description :: "jstring option"
  b_special :: "jstring option"

record memory_request =
  req_body :: memory_body
  req_image :: "blob option"

record group_body =
  b_name :: "jstring option"
  b_group_description :: "jstring option"
  b_memoryIds :: "oid list option"

datatype json =
    Error string
  | Message string
  | MemoryDoc memory
  | MemoryDocs "memory list"
  | GroupDoc group
  | GroupDocs "group list"
  | ErrorPage

record response =
  status :: nat
  payload :: json

subsection \<open>The collaborators\<close>

text \<open>Every call that leaves the process is recorded, in order.\<close>

datatype call =
    MediaStore blob
  | MediaDestroy "jstring option"
  | MemoryFind
  | MemoryFindById oid
  | MemoryInsert oid
  | MemorySave oid
  | MemoryFindByIdAndDelete oid
  | GroupFind
  | GroupInsert oid
  | GroupFindByIdAndUpdate oid group_body
  | GroupFindByIdAndDelete oid

record world =
  memories :: "memory list"
  groups :: "group list"
  calls :: "call list"

record env =
  cloud_upload :: "blob \<Rightarrow> file_info promise"
  cloud_destroy :: "jstring option \<Rightarrow> string promise"
  cast_date :: "jstring \<Rightarrow> int option"
  omit_undefined :: bool

definition log :: "call \<Rightarrow> world \<Rightarrow> world" where
  "log c w = w\<lparr>calls := calls w @ [c]\<rparr>"

definition respond :: "nat \<Rightarrow> json \<Rightarrow> response" where
  "respond s j = \<lparr>status = s, payload = j\<rparr>"

definition allowed_formats :: "string list" where
  "allowed_formats = [''jpg'', ''jpeg'', ''png'', ''gif'']"

text \<open>\<open>CloudinaryStorage\<close> with \<open>params.allowed_formats\<close>: the host refuses other formats.\<close>

definition handle_file :: "env \<Rightarrow> blob \<Rightarrow> file_info promise" where
  "handle_file e b =
     (if blob_format b \<in> set allowed_formats then cloud_upload e b else Rejects)"

text \<open>\<open>upload.single('image')\<close>: runs before the handler; a request without a file part
  makes no call and leaves \<open>req.file\<close> undefined; a failed upload ends the request.\<close>

definition upload_single :: "env \<Rightarrow> blob option \<Rightarrow> world \<Rightarrow> file_info option promise \<times> world" where
  "upload_single e img w =
     (case img of
        None \<Rightarrow> (Resolves None, w)
      | Some b \<Rightarrow>
          (case handle_file e b of
             Resolves f \<Rightarrow> (Resolves (Some f), log (MediaStore b) w)
           | Rejects \<Rightarrow> (Rejects, log (MediaStore b) w)))"

subsection \<open>The Memory model\<close>

definition findById :: "oid \<Rightarrow> memory list \<Rightarrow> memory option" where
  "findById i ms = find (\<lambda>m. mem_id m = i) ms"

text \<open>The \<open>required\<close> validators of \<open>memorySchema\<close>, run by \<open>save\<close>.\<close>

definition memory_validate :: "memory \<Rightarrow> bool" where
  "memory_validate m =
     (truthy (title m) \<and> date m \<noteq> None \<and> truthy (description m)
      \<and> truthy (imageUrl m) \<and> truthy (imagePublicId m))"

text \<open>\<open>save\<close> of a new document: validation, then an insert that the unique \<open>_id\<close> index
  may refuse.\<close>

definition memory_insert :: "memory \<Rightarrow> world \<Rightarrow> memory promise \<times> world" where
  "memory_insert m w =
     (if \<not> memory_validate m then (Rejects, w)
      else if mem_id m \<in> set (map mem_id (memories w))
        then (Rejects, log (MemoryInsert (mem_id m)) w)
      else (Resolves m, log (MemoryInsert (mem_id m)) (w\<lparr>memories := memories w @ [m]\<rparr>)))"

text \<open>\<open>save\<close> of a loaded document: validation, then the row of that \<open>_id\<close> is replaced.\<close>

definition memory_save :: "memory \<Rightarrow> world \<Rightarrow> memory promise \<times> world" where
  "memory_save m w =
     (if \<not> memory_validate m then (Rejects, w)
      else (Resolves m,
            log (MemorySave (mem_id m))
              (w\<lparr>memories := map (\<lambda>x. if mem_id x = mem_id m then m else x) (memories w)\<rparr>)))"

definition memory_findByIdAndDelete :: "oid \<Rightarrow> world \<Rightarrow> world" where
  "memory_findByIdAndDelete i w =
     log (MemoryFindByIdAndDelete i) (w\<lparr>memories := filter (\<lambda>m. mem_id m \<noteq> i) (memories w)\<rparr>)"

text \<open>Assigning a body string to the \<open>date\<close> path casts it; the empty string casts to null.\<close>

definition set_date :: "env \<Rightarrow> jstring option \<Rightarrow> int option" where
  "set_date e v = (case v of None \<Rightarrow> None | Some s \<Rightarrow> if s = [] then None else cast_date e s)"

subsection \<open>Memory routes\<close>

text \<open>\<open>Memory.find().sort({ createdAt: -1 })\<close>.\<close>

definition sort_createdAt_desc :: "memory list \<Rightarrow> memory list" where
  "sort_createdAt_desc ms = sort_key (\<lambda>m. - createdAt m) ms"

definition get_memories :: "world \<Rightarrow> response \<times> world" where
  "get_memories w =
     (respond 200 (MemoryDocs (sort_createdAt_desc (memories w))), log MemoryFind w)"

text \<open>\<open>new Memory({ title, date, description, special, imageUrl, imagePublicId })\<close>:
  the setters run, \<open>createdAt\<close> takes its default.\<close>

definition new_memory :: "env \<Rightarrow> oid \<Rightarrow> int \<Rightarrow> memory_body \<Rightarrow> file_info \<Rightarrow> memory" where
  "new_memory e nid now b f =
     \<lparr>mem_id = nid,
      title = map_option trim (b_title b),
      date = set_date e (b_date b),
      description = b_description b,
      imageUrl = Some (path f),
      imagePublicId = Some (filename f),
      createdAt = now,
      special = b_special b\<rparr>"

definition post_memories_handler ::
  "env \<Rightarrow> oid \<Rightarrow> int \<Rightarrow> memory_body \<Rightarrow> file_info option \<Rightarrow> world \<Rightarrow> response \<times> world" where
  "post_memories_handler e nid now b file w =
     (case file of
        None \<Rightarrow> (respond 400 (Error ''Image is required''), w)
      | Some f \<Rightarrow>
          (case memory_insert (new_memory e nid now b f) w of
             (Resolves savedMemory, w1) \<Rightarrow> (respond 201 (MemoryDoc savedMemory), w1)
           | (Rejects, w1) \<Rightarrow> (respond 500 (Error ''Server error''), w1)))"

text \<open>The route: the middleware, then the handler; an error of the middleware goes to
  the default error handler of Express.\<close>

definition post_memories :: "env \<Rightarrow> oid \<Rightarrow> int \<Rightarrow> memory_request \<Rightarrow> world \<Rightarrow> response \<times> world" where
  "post_memories e nid now req w =
     (case upload_single e (req_image req) w of
        (Rejects, w1) \<Rightarrow> (respond 500 ErrorPage, w1)
      | (Resolves file, w1) \<Rightarrow> post_memories_handler e nid now (req_body req) file w1)"

definition delete_memories :: "env \<Rightarrow> oid \<Rightarrow> world \<Rightarrow> response \<times> world" where
  "delete_memories e i w =
     (let w1 = log (MemoryFindById i) w in
      case findById i (memories w) of
        None \<Rightarrow> (respond 404 (Error ''Memory not found''), w1)
      | Some memory \<Rightarrow>
          (let w2 = log (MediaDestroy (imagePublicId memory)) w1 in
           case cloud_destroy e (imagePublicId memory) of
             Rejects \<Rightarrow> (respond 500 (Error ''Server error''), w2)
           | Resolves r \<Rightarrow>
               (respond 200 (Message ''Memory deleted successfully''),
                memory_findByIdAndDelete i w2)))"

text \<open>The four assignments \<open>memory.x = x || memory.x\<close> of the update handler.\<close>

definition assign_body_fields :: "env \<Rightarrow> memory_body \<Rightarrow> memory \<Rightarrow> memory" where
  "assign_body_fields e b memory =
     memory\<lparr>title := map_option trim (js_or (b_title b) (title memory)),
            date := (if truthy (b_date b) then set_date e (b_date b) else date memory),
            description := js_or (b_description b) (description memory),
            special := js_or (b_special b) (special memory)\<rparr>"

text \<open>The two assignments made when \<open>req.file\<close> is set.\<close>

definition assign_new_image :: "file_info \<Rightarrow> memory \<Rightarrow> memory" where
  "assign_new_image f memory =
     memory\<lparr>imageUrl := Some (path f), imagePublicId := Some (filename f)\<rparr>"

definition put_memories_handler ::
  "env \<Rightarrow> oid \<Rightarrow> memory_body \<Rightarrow> file_info option \<Rightarrow> world \<Rightarrow> response \<times> world" where
  "put_memories_handler e i b file w =
     (let w1 = log (MemoryFindById i) w in
      case findById i (memories w) of
        None \<Rightarrow> (respond 404 (Error ''Memory not found''), w1)
      | Some memory \<Rightarrow>
          (let memory1 = assign_body_fields e b memory
           in case file of
                None \<Rightarrow>
                  (case memory_save memory1 w1 of
                     (Resolves updatedMemory, w2) \<Rightarrow> (respond 200 (MemoryDoc updatedMemory), w2)
                   | (Rejects, w2) \<Rightarrow> (respond 500 (Error ''Server error''), w2))
              | Some f \<Rightarrow>
                  (let w2 = log (MediaDestroy (imagePublicId memory1)) w1 in
                   case cloud_destroy e (imagePublicId memory1) of
                     Rejects \<Rightarrow> (respond 500 (Error ''Server error''), w2)
                   | Resolves r \<Rightarrow>
                       (case memory_save (assign_new_image f memory1) w2 of
                          (Resolves updatedMemory, w3) \<Rightarrow>
                            (respond 200 (MemoryDoc updatedMemory), w3)
                        | (Rejects, w3) \<Rightarrow> (respond 500 (Error ''Server error''), w3)))))"

definition put_memories :: "env \<Rightarrow> oid \<Rightarrow> memory_request \<Rightarrow> world \<Rightarrow> response \<times> world" where
  "put_memories e i req w =
     (case upload_single e (req_image req) w of
        (Rejects, w1) \<Rightarrow> (respond 500 ErrorPage, w1)
      | (Resolves file, w1) \<Rightarrow> put_memories_handler e i (req_body req) file w1)"

subsection \<open>The Group model and routes\<close>

definition findGroupById :: "oid \<Rightarrow> group list \<Rightarrow> group option" where
  "findGroupById i gs = find (\<lambda>g. grp_id g = i) gs"

definition group_validate :: "group \<Rightarrow> bool" where
  "group_validate g = truthy (name g)"

definition group_insert :: "group \<Rightarrow> world \<Rightarrow> group promise \<times> world" where
  "group_insert g w =
     (if \<not> group_validate g then (Rejects, w)
      else if grp_id g \<in> set (map grp_id (groups w))
        then (Rejects, log (GroupInsert (grp_id g)) w)
      else (Resolves g, log (GroupInsert (grp_id g)) (w\<lparr>groups := groups w @ [g]\<rparr>)))"

text \<open>What an update \<open>{ name, description, memoryIds }\<close> does to a row. A key that is
  \<open>undefined\<close> is dropped from the update or written as null, depending on the store;
  validators do not run on \<open>findByIdAndUpdate\<close>.\<close>

definition apply_update :: "env \<Rightarrow> group_body \<Rightarrow> group \<Rightarrow> group" where
  "apply_update e u g =
     g\<lparr>name := (case b_name u of
                   Some v \<Rightarrow> Some (trim v)
                 | None \<Rightarrow> if omit_undefined e then name g else None),
       group_description := (case b_group_description u of
                   Some v \<Rightarrow> Some v
                 | None \<Rightarrow> if omit_undefined e then group_description g else None),
       memoryIds := (case b_memoryIds u of
                   Some v \<Rightarrow> Some v
                 | None \<Rightarrow> if omit_undefined e then memoryIds g else None)\<rparr>"

text \<open>\<open>findByIdAndUpdate(id, update, { new: true })\<close>: null when no row has the id,
  the row after the update otherwise.\<close>

definition group_findByIdAndUpdate ::
  "env \<Rightarrow> oid \<Rightarrow> group_body \<Rightarrow> world \<Rightarrow> group option \<times> world" where
  "group_findByIdAndUpdate e i u w =
     (let w1 = log (GroupFindByIdAndUpdate i u) w in
      case findGroupById i (groups w) of
        None \<Rightarrow> (None, w1)
      | Some g \<Rightarrow>
          (Some (apply_update e u g),
           w1\<lparr>groups := map (\<lambda>x. if grp_id x = i then apply_update e u g else x) (groups w)\<rparr>))"

definition group_findByIdAndDelete :: "oid \<Rightarrow> world \<Rightarrow> group option \<times> world" where
  "group_findByIdAndDelete i w =
     (findGroupById i (groups w),
      log (GroupFindByIdAndDelete i) (w\<lparr>groups := filter (\<lambda>g. grp_id g \<noteq> i) (groups w)\<rparr>))"

definition get_groups :: "world \<Rightarrow> response \<times> world" where
  "get_groups w = (respond 200 (GroupDocs (groups w)), log GroupFind w)"

text \<open>\<open>memoryIds || []\<close>: an array, even an empty one, is truthy.\<close>

definition new_group :: "oid \<Rightarrow> int \<Rightarrow> group_body \<Rightarrow> group" where
  "new_group nid now b =
     \<lparr>grp_id = nid,
      name = map_option trim (b_name b),
      group_description = b_group_description b,
      memoryIds = Some (case b_memoryIds b of None \<Rightarrow> [] | Some xs \<Rightarrow> xs),
      group_createdAt = now\<rparr>"

definition post_groups :: "oid \<Rightarrow> int \<Rightarrow> group_body \<Rightarrow> world \<Rightarrow> response \<times> world" where
  "post_groups nid now b w =
     (case group_insert (new_group nid now b) w of
        (Resolves savedGroup, w1) \<Rightarrow> (respond 201 (GroupDoc savedGroup), w1)
      | (Rejects, w1) \<Rightarrow> (respond 500 (Error ''Server error''), w1))"

definition put_groups :: "env \<Rightarrow> oid \<Rightarrow> group_body \<Rightarrow> world \<Rightarrow> response \<times> world" where
  "put_groups e i b w =
     (case group_findByIdAndUpdate e i b w of
        (None, w1) \<Rightarrow> (respond 404 (Error ''Group not found''), w1)
      | (Some updatedGroup, w1) \<Rightarrow> (respond 200 (GroupDoc updatedGroup), w1))"

definition delete_groups :: "oid \<Rightarrow> world \<Rightarrow> response \<times> world" where
  "delete_groups i w =
     (case group_findByIdAndDelete i w of
        (None, w1) \<Rightarrow> (respond 404 (Error ''Group not found''), w1)
      | (Some deletedGroup, w1) \<Rightarrow> (respond 200 (Message ''Group deleted successfully''), w1))"

subsection \<open>The application\<close>

text \<open>A request names its route; a create request carries the \<open>_id\<close> the driver
  generates for the new document and the reading of \<open>Date.now\<close>.\<close>

datatype request =
    GetGroups
  | PostGroups oid int group_body
  | PutGroups oid group_body
  | DeleteGroups oid
  | GetMemories
  | PostMemories oid int memory_request
  | PutMemories oid memory_request
  | DeleteMemories oid

fun serve :: "env \<Rightarrow> request \<Rightarrow> world \<Rightarrow> response \<times> world" where
  "serve e GetGroups w = get_groups w"
| "serve e (PostGroups nid now b) w = post_groups nid now b w"
| "serve e (PutGroups i b) w = put_groups e i b w"
| "serve e (DeleteGroups i) w = delete_groups i w"
| "serve e GetMemories w = get_memories w"
| "serve e (PostMemories nid now req) w = post_memories e nid now req w"
| "serve e (PutMemories i req) w = put_memories e i req w"
| "serve e (DeleteMemories i) w = delete_memories e i w"

text \<open>The states the application reaches from empty collections: any sequence of
  requests, each under its own behaviour of the collaborators.\<close>

definition empty_world :: world where
  "empty_world = \<lparr>memories = [], groups = [], calls = []\<rparr>"

fun run :: "(env \<times> request) list \<Rightarrow> world \<Rightarrow> world" where
  "run [] w = w"
| "run ((e, rq) # rest) w = run rest (snd (serve e rq w))"

subsection \<open>Vocabulary of the properties\<close>

text \<open>The calls a request added to the log, and those among them that went to the media host.\<close>

definition new_calls :: "world \<Rightarrow> world \<Rightarrow> call list" where
  "new_calls w w' = drop (length (calls w)) (calls w')"

fun is_media_call :: "call \<Rightarrow> bool" where
  "is_media_call (MediaStore b) = True"
| "is_media_call (MediaDestroy p) = True"
| "is_media_call c = False"

definition media_calls :: "call list \<Rightarrow> call list" where
  "media_calls cs = filter is_media_call cs"

text \<open>A row as \<open>save\<close> leaves it: it passes the validators and its title is as the
  \<open>trim\<close> setter returns it.\<close>

definition row_ok :: "memory \<Rightarrow> bool" where
  "row_ok m = (memory_validate m \<and> map_option trim (title m) = title m)"

definition rows_ok :: "world \<Rightarrow> bool" where
  "rows_ok w = list_all row_ok (memories w)"

definition descending :: "memory list \<Rightarrow> bool" where
  "descending ms = sorted_wrt (\<lambda>a b. createdAt b \<le> createdAt a) ms"

definition strictly_descending :: "memory list \<Rightarrow> bool" where
  "strictly_descending ms = sorted_wrt (\<lambda>a b. createdAt b < createdAt a) ms"

definition image_pair :: "memory \<Rightarrow> jstring option \<times> jstring option" where
  "image_pair m = (imageUrl m, imagePublicId m)"

text \<open>The \<open>(url, publicId)\<close> pair the media host returned to a request, if it stored a blob.\<close>

definition upload_result :: "env \<Rightarrow> blob option \<Rightarrow> (jstring option \<times> jstring option) option" where
  "upload_result e img =
     (case img of
        None \<Rightarrow> None
      | Some b \<Rightarrow>
          (case handle_file e b of
             Resolves f \<Rightarrow> Some (Some (path f), Some (filename f))
           | Rejects \<Rightarrow> None))"

fun uploaded_pair :: "env \<Rightarrow> request \<Rightarrow> (jstring option \<times> jstring option) option" where
  "uploaded_pair e (PostMemories nid now req) = upload_result e (req_image req)"
| "uploaded_pair e (PutMemories i req) = upload_result e (req_image req)"
| "uploaded_pair e rq = None"

subsection \<open>Sample data\<close>

definition env_ok :: env where
  "env_ok =
     \<lparr>cloud_upload = (\<lambda>b. Resolves \<lparr>path = js ''https://res.cloudinary.com/demo/new.png'',
                                    filename = js ''memories/new''\<rparr>),
      cloud_destroy = (\<lambda>p. Resolves ''ok''),
      cast_date = (\<lambda>s. if s = js ''2024-01-01'' then Some 1704067200000 else None),
      omit_undefined = True\<rparr>"

definition env_destroy_rejects :: env where
  "env_destroy_rejects = env_ok\<lparr>cloud_destroy := (\<lambda>p. Rejects)\<rparr>"

definition env_nullify :: env where
  "env_nullify = env_ok\<lparr>omit_undefined := False\<rparr>"

definition memory_one :: memory where
  "memory_one =
     \<lparr>mem_id = 101, title = Some (js ''Beach''), date = Some 1704067200000,
      description = Some (js ''Sunny''),
      imageUrl = Some (js ''https://res.cloudinary.com/demo/old.png''),
      imagePublicId = Some (js ''memories/old''), createdAt = 1000, special = None\<rparr>"

definition world_one :: world where
  "world_one = \<lparr>memories = [memory_one], groups = [], calls = []\<rparr>"

definition blob_png :: blob where
  "blob_png = \<lparr>blob_format = ''png'', blob_bytes = [137, 80, 78, 71]\<rparr>"

definition body_empty :: memory_body where
  "body_empty = \<lparr>b_title = None, b_date = None, b_description = None, b_special = None\<rparr>"

definition body_beach :: memory_body where
  "body_beach = \<lparr>b_title = Some (js '' Beach ''), b_date = Some (js ''2024-01-01''),
                  b_description = Some (js ''Sunny''), b_special = None\<rparr>"

definition request_new_image :: memory_request where
  "request_new_image = \<lparr>req_body = body_empty, req_image = Some blob_png\<rparr>"

definition request_create :: memory_request where
  "request_create = \<lparr>req_body = body_beach, req_image = Some blob_png\<rparr>"

text \<open>One memory created through the API, and two created in the same millisecond.\<close>

definition script_one :: "(env \<times> request) list" where
  "script_one = [(env_ok, PostMemories 101 1000 request_create)]"

definition script_two :: "(env \<times> request) list" where
  "script_two = [(env_ok, PostMemories 101 1000 request_create),
                 (env_ok, PostMemories 102 1000 request_create)]"

definition script_later :: "(env \<times> request) list" where
  "script_later = [(env_ok, PostMemories 101 1000 request_create),
                   (env_ok, PostMemories 102 2000 request_create)]"

definition memory_created :: memory where
  "memory_created =
     \<lparr>mem_id = 101, title = Some (js ''Beach''), date = Some 1704067200000,
      description = Some (js ''Sunny''),
      imageUrl = Some (js ''https://res.cloudinary.com/demo/new.png''),
      imagePublicId = Some (js ''memories/new''), createdAt = 1000, special = None\<rparr>"

definition group_one :: group where
  "group_one = \<lparr>grp_id = 7, name = Some (js ''Trips''), group_description = Some (js ''2023''),
                 memoryIds = Some [101, 102], group_createdAt = 500\<rparr>"

definition world_group :: world where
  "world_group = \<lparr>memories = [], groups = [group_one], calls = []\<rparr>"

section \<open>Auxiliary facts\<close>

lemmas sample_defs = env_ok_def env_destroy_rejects_def env_nullify_def memory_one_def world_one_def
  blob_png_def body_empty_def body_beach_def request_new_image_def request_create_def
  script_one_def script_two_def script_later_def group_one_def world_group_def empty_world_def

lemmas route_defs = post_memories_def put_memories_def delete_memories_def get_memories_def
  upload_single_def post_memories_handler_def put_memories_handler_def handle_file_def
  memory_save_def memory_insert_def memory_findByIdAndDelete_def new_memory_def
  assign_body_fields_def assign_new_image_def memory_validate_def set_date_def
  log_def respond_def findById_def allowed_formats_def js_or_def truthy_def trim_def is_space_def
  js_def

subsection \<open>Trimming\<close>

lemma dropWhile_trim: "dropWhile is_space (trim s) = trim s"
proof (cases "trim s = []")
  case True
  then show ?thesis by simp
next
  case False
  define t where "t = dropWhile is_space s"
  have "rev (dropWhile is_space (rev t)) @ rev (takeWhile is_space (rev t)) =
        rev (takeWhile is_space (rev t) @ dropWhile is_space (rev t))"
    by (simp only: rev_append)
  also have "\<dots> = t"
    by (simp only: takeWhile_dropWhile_id rev_rev_ident)
  finally have split: "t = trim s @ rev (takeWhile is_space (rev t))"
    by (simp add: trim_def t_def)
  have "hd t = hd (trim s @ rev (takeWhile is_space (rev t)))"
    by (rule arg_cong [OF split])
  also have "\<dots> = hd (trim s)"
    using False by (rule hd_append2)
  finally have "hd (trim s) = hd t"
    by simp
  moreover have "t \<noteq> []"
  proof
    assume "t = []"
    moreover have "trim s = rev (dropWhile is_space (rev t))"
      by (simp add: trim_def t_def)
    ultimately have "trim s = []" by simp
    with False show False by simp
  qed
  moreover have "\<not> is_space (hd t)" if "t \<noteq> []"
    using that unfolding t_def by (rule hd_dropWhile)
  ultimately have "\<not> is_space (hd (trim s))"
    by simp
  with False show ?thesis
    by (cases "trim s") auto
qed

lemma trim_idem: "trim (trim s) = trim s"
proof -
  have "trim (trim s) = rev (dropWhile is_space (rev (trim s)))"
    by (simp add: trim_def [of "trim s"] dropWhile_trim)
  also have "\<dots> = rev (dropWhile is_space (dropWhile is_space (rev (dropWhile is_space s))))"
    by (simp add: trim_def)
  also have "\<dots> = trim s"
    by (simp add: trim_def)
  finally show ?thesis .
qed

text \<open>White space beyond ASCII is stripped as well: a no-break space, a line separator
  and a byte-order mark around a letter; a name that is one no-break space trims to the
  empty string, which the \<open>required\<close> validator refuses.\<close>

lemma trim_unicode_space: "trim [0xA0, 0x42, 0x2028, 0xFEFF] = [0x42]"
  by (simp add: trim_def is_space_def)

lemma trim_no_break_space: "\<not> truthy (map_option trim (Some [0xA0]))"
  by (simp add: truthy_def trim_def is_space_def)

lemma map_option_trim_idem: "map_option trim (map_option trim v) = map_option trim v"
  by (cases v) (simp_all add: trim_idem)

subsection \<open>Lookups in a collection\<close>

lemma findById_mem_id: "findById i ms = Some m \<Longrightarrow> mem_id m = i"
  by (auto simp: findById_def find_Some_iff)

lemma findById_replace:
  "mem_id m' = j \<Longrightarrow>
   findById i (map (\<lambda>x. if mem_id x = j then m' else x) ms) =
     (if i = j then map_option (\<lambda>x. m') (findById j ms) else findById i ms)"
  by (induction ms) (auto simp: findById_def)

lemma findById_remove:
  "findById i (filter (\<lambda>m. mem_id m \<noteq> j) ms) = (if i = j then None else findById i ms)"
  by (induction ms) (auto simp: findById_def)

lemma findById_append:
  "findById i (ms @ [m]) =
     (case findById i ms of Some x \<Rightarrow> Some x | None \<Rightarrow> if mem_id m = i then Some m else None)"
  by (induction ms) (auto simp: findById_def)

lemma findById_fresh: "i \<notin> set (map mem_id ms) \<Longrightarrow> findById i ms = None"
  by (induction ms) (auto simp: findById_def)

lemma findGroupById_absent_filter:
  "findGroupById i gs = None \<Longrightarrow> filter (\<lambda>g. grp_id g \<noteq> i) gs = gs"
  by (induction gs) (auto simp: findGroupById_def split: if_splits)

lemma findGroupById_replace:
  "findGroupById i gs = Some g \<Longrightarrow> grp_id g' = i \<Longrightarrow>
   findGroupById i (map (\<lambda>x. if grp_id x = i then g' else x) gs) = Some g'"
  by (induction gs) (auto simp: findGroupById_def)

lemma findGroupById_append_fresh:
  "i \<notin> set (map grp_id gs) \<Longrightarrow> grp_id g = i \<Longrightarrow> findGroupById i (gs @ [g]) = Some g"
  by (induction gs) (auto simp: findGroupById_def)

subsection \<open>What each Memory route does\<close>

lemma assign_body_fields_frame [simp]:
  "mem_id (assign_body_fields e b m) = mem_id m"
  "imageUrl (assign_body_fields e b m) = imageUrl m"
  "imagePublicId (assign_body_fields e b m) = imagePublicId m"
  "createdAt (assign_body_fields e b m) = createdAt m"
  by (simp_all add: assign_body_fields_def)

lemma assign_new_image_simps [simp]:
  "mem_id (assign_new_image f m) = mem_id m"
  "title (assign_new_image f m) = title m"
  "imageUrl (assign_new_image f m) = Some (path f)"
  "imagePublicId (assign_new_image f m) = Some (filename f)"
  by (simp_all add: assign_new_image_def)

lemma delete_memories_missing:
  "findById i (memories w) = None \<Longrightarrow>
   delete_memories e i w =
     (respond 404 (Error ''Memory not found''), w\<lparr>calls := calls w @ [MemoryFindById i]\<rparr>)"
  by (simp add: delete_memories_def log_def)

lemma delete_memories_found:
  "findById i (memories w) = Some m \<Longrightarrow>
   delete_memories e i w =
     (case cloud_destroy e (imagePublicId m) of
        Rejects \<Rightarrow>
          (respond 500 (Error ''Server error''),
           w\<lparr>calls := calls w @ [MemoryFindById i, MediaDestroy (imagePublicId m)]\<rparr>)
      | Resolves r \<Rightarrow>
          (respond 200 (Message ''Memory deleted successfully''),
           w\<lparr>memories := filter (\<lambda>x. mem_id x \<noteq> i) (memories w),
             calls := calls w @ [MemoryFindById i, MediaDestroy (imagePublicId m),
                                 MemoryFindByIdAndDelete i]\<rparr>))"
  by (simp add: delete_memories_def memory_findByIdAndDelete_def log_def Let_def
      split: promise.splits)

lemma put_memories_upload_rejects:
  "req_image req = Some b \<Longrightarrow> handle_file e b = Rejects \<Longrightarrow>
   put_memories e i req w = (respond 500 ErrorPage, w\<lparr>calls := calls w @ [MediaStore b]\<rparr>)"
  by (simp add: put_memories_def upload_single_def log_def)

lemma put_memories_missing_no_image:
  "findById i (memories w) = None \<Longrightarrow> req_image req = None \<Longrightarrow>
   put_memories e i req w =
     (respond 404 (Error ''Memory not found''), w\<lparr>calls := calls w @ [MemoryFindById i]\<rparr>)"
  by (simp add: put_memories_def upload_single_def put_memories_handler_def log_def)

lemma put_memories_missing_image:
  "findById i (memories w) = None \<Longrightarrow> req_image req = Some b \<Longrightarrow> handle_file e b = Resolves f \<Longrightarrow>
   put_memories e i req w =
     (respond 404 (Error ''Memory not found''),
      w\<lparr>calls := calls w @ [MediaStore b, MemoryFindById i]\<rparr>)"
  by (simp add: put_memories_def upload_single_def put_memories_handler_def log_def)

lemma put_memories_found_no_image:
  "findById i (memories w) = Some m \<Longrightarrow> req_image req = None \<Longrightarrow>
   put_memories e i req w =
     (if memory_validate (assign_body_fields e (req_body req) m)
      then (respond 200 (MemoryDoc (assign_body_fields e (req_body req) m)),
            w\<lparr>memories := map (\<lambda>x. if mem_id x = i
                                    then assign_body_fields e (req_body req) m else x) (memories w),
              calls := calls w @ [MemoryFindById i, MemorySave i]\<rparr>)
      else (respond 500 (Error ''Server error''), w\<lparr>calls := calls w @ [MemoryFindById i]\<rparr>))"
  using findById_mem_id [of i "memories w" m]
  by (simp add: put_memories_def upload_single_def put_memories_handler_def memory_save_def
      log_def Let_def)

lemma put_memories_found_image:
  "findById i (memories w) = Some m \<Longrightarrow> req_image req = Some b \<Longrightarrow> handle_file e b = Resolves f \<Longrightarrow>
   put_memories e i req w =
     (case cloud_destroy e (imagePublicId m) of
        Rejects \<Rightarrow>
          (respond 500 (Error ''Server error''),
           w\<lparr>calls := calls w @ [MediaStore b, MemoryFindById i, MediaDestroy (imagePublicId m)]\<rparr>)
      | Resolves r \<Rightarrow>
          (if memory_validate (assign_new_image f (assign_body_fields e (req_body req) m))
           then (respond 200 (MemoryDoc (assign_new_image f (assign_body_fields e (req_body req) m))),
                 w\<lparr>memories := map (\<lambda>x. if mem_id x = i
                                         then assign_new_image f (assign_body_fields e (req_body req) m)
                                         else x) (memories w),
                   calls := calls w @ [MediaStore b, MemoryFindById i,
                                       MediaDestroy (imagePublicId m), MemorySave i]\<rparr>)
           else (respond 500 (Error ''Server error''),
                 w\<lparr>calls := calls w @ [MediaStore b, MemoryFindById i,
                                       MediaDestroy (imagePublicId m)]\<rparr>)))"
  using findById_mem_id [of i "memories w" m]
  by (simp add: put_memories_def upload_single_def put_memories_handler_def memory_save_def
      log_def Let_def split: promise.splits)

text \<open>The document a create request builds.\<close>

lemma post_memories_upload_rejects:
  "req_image req = Some b \<Longrightarrow> handle_file e b = Rejects \<Longrightarrow>
   post_memories e nid now req w = (respond 500 ErrorPage, w\<lparr>calls := calls w @ [MediaStore b]\<rparr>)"
  by (simp add: post_memories_def upload_single_def log_def)

lemma post_memories_no_image:
  "req_image req = None \<Longrightarrow>
   post_memories e nid now req w = (respond 400 (Error ''Image is required''), w)"
  by (simp add: post_memories_def upload_single_def post_memories_handler_def)

lemma post_memories_image:
  "req_image req = Some b \<Longrightarrow> handle_file e b = Resolves f \<Longrightarrow>
   post_memories e nid now req w =
     (if \<not> memory_validate (new_memory e nid now (req_body req) f)
      then (respond 500 (Error ''Server error''), w\<lparr>calls := calls w @ [MediaStore b]\<rparr>)
      else if nid \<in> set (map mem_id (memories w))
      then (respond 500 (Error ''Server error''),
            w\<lparr>calls := calls w @ [MediaStore b, MemoryInsert nid]\<rparr>)
      else (respond 201 (MemoryDoc (new_memory e nid now (req_body req) f)),
            w\<lparr>memories := memories w @ [new_memory e nid now (req_body req) f],
              calls := calls w @ [MediaStore b, MemoryInsert nid]\<rparr>))"
  by (simp add: post_memories_def upload_single_def post_memories_handler_def memory_insert_def
      log_def new_memory_def)

lemma new_memory_simps [simp]:
  "mem_id (new_memory e nid now b f) = nid"
  "title (new_memory e nid now b f) = map_option trim (b_title b)"
  "imageUrl (new_memory e nid now b f) = Some (path f)"
  "imagePublicId (new_memory e nid now b f) = Some (filename f)"
  "createdAt (new_memory e nid now b f) = now"
  by (simp_all add: new_memory_def)

subsection \<open>What each Group route does\<close>

lemma put_groups_missing:
  "findGroupById i (groups w) = None \<Longrightarrow>
   put_groups e i b w =
     (respond 404 (Error ''Group not found''),
      w\<lparr>calls := calls w @ [GroupFindByIdAndUpdate i b]\<rparr>)"
  by (simp add: put_groups_def group_findByIdAndUpdate_def log_def)

lemma put_groups_found:
  "findGroupById i (groups w) = Some g \<Longrightarrow>
   put_groups e i b w =
     (respond 200 (GroupDoc (apply_update e b g)),
      w\<lparr>groups := map (\<lambda>x. if grp_id x = i then apply_update e b g else x) (groups w),
        calls := calls w @ [GroupFindByIdAndUpdate i b]\<rparr>)"
  by (simp add: put_groups_def group_findByIdAndUpdate_def log_def)

lemma delete_groups_missing:
  "findGroupById i (groups w) = None \<Longrightarrow>
   delete_groups i w =
     (respond 404 (Error ''Group not found''),
      w\<lparr>calls := calls w @ [GroupFindByIdAndDelete i]\<rparr>)"
  by (simp add: delete_groups_def group_findByIdAndDelete_def log_def findGroupById_absent_filter)

lemma post_groups_fresh:
  "truthy (map_option trim (b_name b)) \<Longrightarrow> nid \<notin> set (map grp_id (groups w)) \<Longrightarrow>
   post_groups nid now b w =
     (respond 201 (GroupDoc (new_group nid now b)),
      w\<lparr>groups := groups w @ [new_group nid now b],
        calls := calls w @ [GroupInsert nid]\<rparr>)"
  by (simp add: post_groups_def group_insert_def group_validate_def new_group_def log_def)

subsection \<open>Every stored row is as \<open>save\<close> leaves it\<close>

lemma rows_ok_log [simp]: "rows_ok (log c w) = rows_ok w"
  by (simp add: rows_ok_def log_def)

lemma list_all_replace:
  "list_all P ms \<Longrightarrow> P m' \<Longrightarrow> list_all P (map (\<lambda>x. if c x then m' else x) ms)"
  by (induction ms) auto

lemma snd_case_promise [simp]:
  "snd (case p of (Resolves u, w2) \<Rightarrow> (f u, w2) | (Rejects, w2) \<Rightarrow> (g, w2)) = snd p"
  by (cases p) (auto split: promise.splits)

lemma memory_save_rows_ok:
  "rows_ok w \<Longrightarrow> map_option trim (title m) = title m \<Longrightarrow> rows_ok (snd (memory_save m w))"
  by (simp add: memory_save_def rows_ok_def row_ok_def log_def list_all_replace)

lemma memory_insert_rows_ok:
  "rows_ok w \<Longrightarrow> map_option trim (title m) = title m \<Longrightarrow> rows_ok (snd (memory_insert m w))"
  by (simp add: memory_insert_def rows_ok_def row_ok_def log_def)

lemma assign_body_fields_trimmed:
  "map_option trim (title (assign_body_fields e b m)) = title (assign_body_fields e b m)"
  by (simp add: assign_body_fields_def map_option_trim_idem)

lemma post_memories_rows_ok:
  "rows_ok w \<Longrightarrow> rows_ok (snd (post_memories e nid now req w))"
  by (auto simp: post_memories_def upload_single_def post_memories_handler_def
      memory_insert_rows_ok map_option_trim_idem
      split: option.splits promise.splits)

lemma put_memories_rows_ok:
  "rows_ok w \<Longrightarrow> rows_ok (snd (put_memories e i req w))"
  by (auto simp: put_memories_def upload_single_def put_memories_handler_def Let_def
      memory_save_rows_ok assign_body_fields_trimmed
      split: option.splits promise.splits)

lemma delete_memories_rows_ok:
  "rows_ok w \<Longrightarrow> rows_ok (snd (delete_memories e i w))"
  by (auto simp: delete_memories_def memory_findByIdAndDelete_def Let_def rows_ok_def
      log_def list_all_iff split: option.splits promise.splits)

lemma other_routes_memories:
  "memories (snd (get_groups w)) = memories w"
  "memories (snd (post_groups nid now b w)) = memories w"
  "memories (snd (put_groups e i b w)) = memories w"
  "memories (snd (delete_groups i w)) = memories w"
  "memories (snd (get_memories w)) = memories w"
  by (simp_all add: get_groups_def post_groups_def group_insert_def put_groups_def
      group_findByIdAndUpdate_def delete_groups_def group_findByIdAndDelete_def get_memories_def
      log_def Let_def split: option.splits)

lemma serve_rows_ok:
  "rows_ok w \<Longrightarrow> rows_ok (snd (serve e rq w))"
  by (cases rq)
    (simp_all add: post_memories_rows_ok put_memories_rows_ok delete_memories_rows_ok,
     simp_all add: rows_ok_def other_routes_memories)

lemma run_rows_ok: "rows_ok w \<Longrightarrow> rows_ok (run script w)"
  by (induction script w rule: run.induct) (simp_all add: serve_rows_ok)

lemma reachable_rows_ok: "rows_ok (run script empty_world)"
  by (rule run_rows_ok) (simp add: rows_ok_def empty_world_def)

lemma rows_ok_findById: "rows_ok w \<Longrightarrow> findById i (memories w) = Some m \<Longrightarrow> row_ok m"
  by (auto simp: rows_ok_def findById_def find_Some_iff list_all_iff)

subsection \<open>The sorted read\<close>

lemma descending_sort: "descending (sort_createdAt_desc ms)"
proof -
  have "sorted (map (\<lambda>m. - createdAt m) (sort_key (\<lambda>m. - createdAt m) ms))"
    by (rule sorted_sort_key)
  then show ?thesis
    by (simp add: descending_def sort_createdAt_desc_def sorted_map)
qed

lemma mset_sort_createdAt_desc: "mset (sort_createdAt_desc ms) = mset ms"
  by (simp add: sort_createdAt_desc_def)

lemma strictly_descending_sort:
  assumes "distinct (map createdAt ms)"
  shows "strictly_descending (sort_createdAt_desc ms)"
proof -
  let ?xs = "sort_createdAt_desc ms"
  have "mset (map createdAt ?xs) = mset (map createdAt ms)"
    by (simp add: mset_sort_createdAt_desc)
  then have d: "distinct (map createdAt ?xs)"
    using assms by (metis distinct_count_atmost_1 set_mset_mset)
  have s: "sorted_wrt (\<lambda>a b. createdAt b \<le> createdAt a) ?xs"
    using descending_sort [of ms] by (simp add: descending_def)
  have "sorted_wrt (\<lambda>a b. createdAt a \<noteq> createdAt b) ?xs"
    using d by (simp add: distinct_map distinct_conv_nth sorted_wrt_iff_nth_less inj_on_def)
  with s have "sorted_wrt (\<lambda>a b. createdAt b \<le> createdAt a \<and> createdAt a \<noteq> createdAt b) ?xs"
    by (simp add: sorted_wrt_iff_nth_less)
  then show ?thesis
    unfolding strictly_descending_def
    by (rule sorted_wrt_mono_rel [rotated]) auto
qed

subsection \<open>The image fields of a row, before and after a request\<close>

lemma upload_result_Some [simp]:
  "handle_file e b = Resolves f \<Longrightarrow>
   upload_result e (Some b) = Some (Some (path f), Some (filename f))"
  by (simp add: upload_result_def)

lemma post_memories_pairs:
  assumes "findById i (memories (snd (post_memories e nid now req w))) = Some m'"
  shows "map_option image_pair (findById i (memories w)) = Some (image_pair m')
       \<or> upload_result e (req_image req) = Some (image_pair m')"
proof (cases "req_image req")
  case None
  with assms show ?thesis by (simp add: post_memories_no_image)
next
  case (Some b)
  show ?thesis
  proof (cases "handle_file e b")
    case Rejects
    with Some assms show ?thesis by (simp add: post_memories_upload_rejects)
  next
    case (Resolves f)
    with Some assms show ?thesis
      by (auto simp: post_memories_image findById_append image_pair_def
          split: if_splits option.splits)
  qed
qed

lemma put_memories_pairs:
  assumes "findById i (memories (snd (put_memories e j req w))) = Some m'"
  shows "map_option image_pair (findById i (memories w)) = Some (image_pair m')
       \<or> upload_result e (req_image req) = Some (image_pair m')"
proof (cases "req_image req")
  case None
  show ?thesis
  proof (cases "findById j (memories w)")
    case missing: None
    with None assms show ?thesis by (simp add: put_memories_missing_no_image)
  next
    case (Some m)
    with None assms findById_mem_id [OF Some] show ?thesis
      by (auto simp: put_memories_found_no_image findById_replace image_pair_def
          split: if_splits)
  qed
next
  case (Some b)
  show ?thesis
  proof (cases "handle_file e b")
    case Rejects
    with Some assms show ?thesis by (simp add: put_memories_upload_rejects)
  next
    case (Resolves f)
    show ?thesis
    proof (cases "findById j (memories w)")
      case None
      with Some Resolves assms show ?thesis by (simp add: put_memories_missing_image)
    next
      case found: (Some m)
      with Some Resolves assms findById_mem_id [OF found] show ?thesis
        by (auto simp: put_memories_found_image findById_replace image_pair_def
            split: if_splits promise.splits)
    qed
  qed
qed

lemma delete_memories_pairs:
  assumes "findById i (memories (snd (delete_memories e j w))) = Some m'"
  shows "findById i (memories w) = Some m'"
proof (cases "findById j (memories w)")
  case None
  with assms show ?thesis by (simp add: delete_memories_missing)
next
  case (Some m)
  with assms show ?thesis
    by (auto simp: delete_memories_found findById_remove split: if_splits promise.splits)
qed

subsection \<open>Group lookups\<close>

lemma findGroupById_grp_id: "findGroupById i gs = Some g \<Longrightarrow> grp_id g = i"
  by (auto simp: findGroupById_def find_Some_iff)

lemma apply_update_grp_id [simp]: "grp_id (apply_update e u g) = grp_id g"
  by (simp add: apply_update_def)

lemma js_or_None [simp]: "js_or None v = v"
  by (simp add: js_or_def truthy_def)

subsection \<open>Sample requests\<close>

lemma new_calls_append [simp]: "new_calls w (w'\<lparr>calls := calls w @ cs\<rparr>) = cs"
  by (simp add: new_calls_def)

lemma findById_world_one: "findById 101 (memories world_one) = Some memory_one"
  by (simp add: world_one_def memory_one_def findById_def)

lemma handle_file_png:
  "handle_file env_ok blob_png =
     Resolves \<lparr>path = js ''https://res.cloudinary.com/demo/new.png'',
               filename = js ''memories/new''\<rparr>"
  "handle_file env_destroy_rejects blob_png =
     Resolves \<lparr>path = js ''https://res.cloudinary.com/demo/new.png'',
               filename = js ''memories/new''\<rparr>"
  by (simp_all add: handle_file_def env_ok_def env_destroy_rejects_def blob_png_def
      allowed_formats_def)

lemma run_script_one:
  "run script_one empty_world =
     \<lparr>memories = [memory_created], groups = [],
      calls = [MediaStore blob_png, MemoryInsert 101]\<rparr>"
  by (simp add: sample_defs route_defs memory_created_def)

lemma run_script_two:
  "memories (run script_two empty_world) = [memory_created, memory_created\<lparr>mem_id := 102\<rparr>]"
  by (simp add: sample_defs route_defs memory_created_def)

lemma run_script_later:
  "memories (run script_later empty_world) =
     [memory_created, memory_created\<lparr>mem_id := 102, createdAt := 2000\<rparr>]"
  by (simp add: sample_defs route_defs memory_created_def)

text \<open>Names and titles of white space only, or padded with it, beyond ASCII: the
  create and the update are refused with 500, and an update of a group stores the name
  without the padding.\<close>

lemma post_groups_blank_name:
  "post_groups 8 600 \<lparr>b_name = Some [0xA0], b_group_description = None, b_memoryIds = None\<rparr>
     world_group = (respond 500 (Error ''Server error''), world_group)"
  by (simp add: post_groups_def group_insert_def group_validate_def new_group_def truthy_def
      trim_def is_space_def)

lemma put_memories_blank_title:
  "put_memories env_ok 101
     \<lparr>req_body = body_empty\<lparr>b_title := Some [0xA0]\<rparr>, req_image = Some blob_png\<rparr> world_one =
     (respond 500 (Error ''Server error''),
      world_one\<lparr>calls := [MediaStore blob_png, MemoryFindById 101,
                              MediaDestroy (Some (js ''memories/old''))]\<rparr>)"
  by (simp add: sample_defs route_defs)

lemma put_groups_padded_name:
  "fst (put_groups env_ok 7
     \<lparr>b_name = Some (0xA0 # js ''Tours'' @ [0x2003]), b_group_description = None,
      b_memoryIds = None\<rparr> world_group) =
     respond 200 (GroupDoc (group_one\<lparr>name := Some (js ''Tours'')\<rparr>))"
  by (simp add: put_groups_def group_findByIdAndUpdate_def findGroupById_def apply_update_def
      log_def sample_defs trim_def is_space_def js_def)

section \<open>Properties\<close>


text \<open>
  C4. A Create(Memory) request with no image attached is answered 400 with
  \<open>{error: "Image is required"}\<close>, and nothing else happens: no call to the media host,
  no call to the record store, both collections as they were.
\<close>

theorem post_memories_without_image:
  "post_memories e nid now \<lparr>req_body = b, req_image = None\<rparr> w =
     (\<lparr>status = 400, payload = Error ''Image is required''\<rparr>, w)"
  by (simp add: post_memories_def upload_single_def post_memories_handler_def respond_def)

subsection \<open>Delete(Memory) when the blob cannot be deleted\<close>

text \<open>
  C1 as stated fails. \<open>await cloudinary.uploader.destroy(...)\<close> stands unguarded inside
  the \<open>try\<close> block of the handler, so a rejected call goes to \<open>catch\<close>: the answer
  is 500 and \<open>findByIdAndDelete\<close> is never reached. Here the row of id 101 is still
  in the collection after the request.
\<close>

theorem delete_memories_destroy_rejects_keeps_row:
  "findById 101 (memories world_one) = Some memory_one
   \<and> cloud_destroy env_destroy_rejects (imagePublicId memory_one) = Rejects
   \<and> fst (delete_memories env_destroy_rejects 101 world_one) = respond 500 (Error ''Server error'')
   \<and> findById 101 (memories (snd (delete_memories env_destroy_rejects 101 world_one))) = Some memory_one"
  by (simp add: sample_defs route_defs)

text \<open>
  C1, amended. For an id that resolves to a row \<open>m\<close>, Delete(Memory) makes exactly one
  call to the media host, the destroy call for \<open>imagePublicId m\<close>. When that call
  resolves (whatever result it reports) the row delete follows, the answer is 200 and the
  row is absent afterwards; when it rejects no row delete is issued, the answer is 500
  \<open>Server error\<close> and the row is still there.
\<close>

theorem delete_memories_outcome:
  assumes "findById i (memories w) = Some m"
  shows "fst (delete_memories e i w) =
           (case cloud_destroy e (imagePublicId m) of
              Resolves r \<Rightarrow> respond 200 (Message ''Memory deleted successfully'')
            | Rejects \<Rightarrow> respond 500 (Error ''Server error''))
       \<and> findById i (memories (snd (delete_memories e i w))) =
           (case cloud_destroy e (imagePublicId m) of Resolves r \<Rightarrow> None | Rejects \<Rightarrow> Some m)
       \<and> media_calls (new_calls w (snd (delete_memories e i w))) = [MediaDestroy (imagePublicId m)]
       \<and> new_calls w (snd (delete_memories e i w)) =
           (case cloud_destroy e (imagePublicId m) of
              Resolves r \<Rightarrow>
                [MemoryFindById i, MediaDestroy (imagePublicId m), MemoryFindByIdAndDelete i]
            | Rejects \<Rightarrow> [MemoryFindById i, MediaDestroy (imagePublicId m)])"
  using assms
  by (simp add: delete_memories_found [OF assms] findById_remove media_calls_def
      split: promise.splits)

theorem delete_memories_outcome_witness:
  "findById 101 (memories world_one) = Some memory_one
   \<and> fst (delete_memories env_ok 101 world_one) = respond 200 (Message ''Memory deleted successfully'')
   \<and> findById 101 (memories (snd (delete_memories env_ok 101 world_one))) = None
   \<and> fst (delete_memories env_destroy_rejects 101 world_one) = respond 500 (Error ''Server error'')
   \<and> findById 101 (memories (snd (delete_memories env_destroy_rejects 101 world_one))) = Some memory_one"
proof -
  have h: "findById 101 (memories world_one) = Some memory_one"
    by (simp add: world_one_def memory_one_def findById_def)
  have ok: "cloud_destroy env_ok (imagePublicId memory_one) = Resolves ''ok''"
    by (simp add: env_ok_def)
  have no: "cloud_destroy env_destroy_rejects (imagePublicId memory_one) = Rejects"
    by (simp add: env_destroy_rejects_def env_ok_def)
  show ?thesis
    using h delete_memories_outcome [OF h, of env_ok] delete_memories_outcome [OF h, of env_destroy_rejects]
    by (simp add: ok no)
qed

subsection \<open>Update(Memory) with a new image\<close>

text \<open>
  C2 as stated fails twice on one request. The new blob is stored by the upload
  middleware, before the handler looks the id up, so the store call precedes the destroy
  call; and a rejected destroy call ends the request with 500, the row unchanged.
\<close>

theorem put_memories_store_precedes_destroy:
  "findById 101 (memories world_one) = Some memory_one
   \<and> req_image request_new_image = Some blob_png
   \<and> cloud_destroy env_destroy_rejects (imagePublicId memory_one) = Rejects
   \<and> calls (snd (put_memories env_destroy_rejects 101 request_new_image world_one)) =
       [MediaStore blob_png, MemoryFindById 101, MediaDestroy (Some (js ''memories/old''))]
   \<and> fst (put_memories env_destroy_rejects 101 request_new_image world_one) =
       respond 500 (Error ''Server error'')
   \<and> memories (snd (put_memories env_destroy_rejects 101 request_new_image world_one)) = [memory_one]"
  by (simp add: sample_defs route_defs)

text \<open>
  C2, amended. For an update of an existing row \<open>m\<close> with a new image that the media
  host accepts, the request makes exactly two calls to the media host: the store call for
  the new blob, then the destroy call for the old public id. When the destroy call
  rejects, the answer is 500 and the collection is unchanged. When it resolves, the
  document is saved if it passes validation, and then the answer is 200 and the stored
  \<open>imageUrl\<close> and \<open>imagePublicId\<close> are the pair the media host returned.
\<close>

theorem put_memories_new_image:
  assumes "findById i (memories w) = Some m"
    and "req_image req = Some b"
    and "handle_file e b = Resolves f"
  shows "media_calls (new_calls w (snd (put_memories e i req w))) =
           [MediaStore b, MediaDestroy (imagePublicId m)]
       \<and> (case cloud_destroy e (imagePublicId m) of
            Rejects \<Rightarrow>
              fst (put_memories e i req w) = respond 500 (Error ''Server error'')
              \<and> memories (snd (put_memories e i req w)) = memories w
          | Resolves r \<Rightarrow>
              (if memory_validate (assign_new_image f (assign_body_fields e (req_body req) m))
               then fst (put_memories e i req w) =
                      respond 200 (MemoryDoc (assign_new_image f (assign_body_fields e (req_body req) m)))
                  \<and> map_option image_pair (findById i (memories (snd (put_memories e i req w)))) =
                      Some (Some (path f), Some (filename f))
               else fst (put_memories e i req w) = respond 500 (Error ''Server error'')
                  \<and> memories (snd (put_memories e i req w)) = memories w))"
  using assms(1) findById_mem_id [OF assms(1)]
  by (simp add: put_memories_found_image [OF assms] media_calls_def findById_replace image_pair_def
      split: promise.splits)

theorem put_memories_new_image_witness:
  "findById 101 (memories world_one) = Some memory_one
   \<and> req_image request_new_image = Some blob_png
   \<and> handle_file env_ok blob_png =
       Resolves \<lparr>path = js ''https://res.cloudinary.com/demo/new.png'',
                 filename = js ''memories/new''\<rparr>
   \<and> media_calls (new_calls world_one (snd (put_memories env_ok 101 request_new_image world_one))) =
       [MediaStore blob_png, MediaDestroy (Some (js ''memories/old''))]
   \<and> status (fst (put_memories env_ok 101 request_new_image world_one)) = 200
   \<and> map_option image_pair
        (findById 101 (memories (snd (put_memories env_ok 101 request_new_image world_one)))) =
       Some (Some (js ''https://res.cloudinary.com/demo/new.png''), Some (js ''memories/new''))"
proof -
  have r: "req_image request_new_image = Some blob_png"
    by (simp add: request_new_image_def)
  have ok: "cloud_destroy env_ok (imagePublicId memory_one) = Resolves ''ok''"
    by (simp add: env_ok_def)
  have v: "memory_validate
             (assign_new_image
                \<lparr>path = js ''https://res.cloudinary.com/demo/new.png'',
                 filename = js ''memories/new''\<rparr>
                (assign_body_fields env_ok (req_body request_new_image) memory_one))"
    by (simp add: memory_validate_def assign_new_image_def assign_body_fields_def
        request_new_image_def body_empty_def memory_one_def js_or_def truthy_def trim_def
        is_space_def js_def)
  show ?thesis
    using put_memories_new_image [OF findById_world_one r handle_file_png(1)]
    by (simp add: findById_world_one r handle_file_png ok v respond_def)
       (simp add: memory_one_def)
qed

subsection \<open>Update and Delete on an id that is not in the store\<close>

text \<open>
  C3 as stated fails on Update(Memory). The route runs \<open>upload.single('image')\<close> before
  the handler, so a request that attaches an image has its blob stored at the media host
  before the id is looked up: the request is answered 404 and has made a media-adapter call.
\<close>

theorem put_memories_missing_id_stores_blob:
  "findById 102 (memories world_one) = None
   \<and> fst (put_memories env_ok 102 request_new_image world_one) =
       respond 404 (Error ''Memory not found'')
   \<and> media_calls (new_calls world_one (snd (put_memories env_ok 102 request_new_image world_one))) =
       [MediaStore blob_png]"
  by (simp add: sample_defs route_defs new_calls_def media_calls_def)

text \<open>
  C3, amended. For an id that is in neither collection: Delete(Memory), Update(Memory)
  without an image, Update(Group) and Delete(Group) answer 404 with
  \<open>{error: "Memory not found"}\<close> or \<open>{error: "Group not found"}\<close>, leave both
  collections as they were and make no call to the media host (the only thing added to
  the state is the lookup in the call log). Update(Memory) with an image makes one store
  call first; when the media host accepts the blob the answer is 404 and the collections
  are unchanged, and when it refuses, the request ends with 500 before the id is looked up.
\<close>

theorem missing_id_not_found:
  assumes "findById i (memories w) = None"
    and "findGroupById j (groups w) = None"
  shows "delete_memories e i w =
           (respond 404 (Error ''Memory not found''), w\<lparr>calls := calls w @ [MemoryFindById i]\<rparr>)
       \<and> put_memories e i \<lparr>req_body = b, req_image = None\<rparr> w =
           (respond 404 (Error ''Memory not found''), w\<lparr>calls := calls w @ [MemoryFindById i]\<rparr>)
       \<and> put_memories e i \<lparr>req_body = b, req_image = Some img\<rparr> w =
           (case handle_file e img of
              Resolves f \<Rightarrow>
                (respond 404 (Error ''Memory not found''),
                 w\<lparr>calls := calls w @ [MediaStore img, MemoryFindById i]\<rparr>)
            | Rejects \<Rightarrow> (respond 500 ErrorPage, w\<lparr>calls := calls w @ [MediaStore img]\<rparr>))
       \<and> put_groups e j gb w =
           (respond 404 (Error ''Group not found''),
            w\<lparr>calls := calls w @ [GroupFindByIdAndUpdate j gb]\<rparr>)
       \<and> delete_groups j w =
           (respond 404 (Error ''Group not found''),
            w\<lparr>calls := calls w @ [GroupFindByIdAndDelete j]\<rparr>)"
  using assms
  by (simp add: delete_memories_missing put_memories_missing_no_image put_memories_missing_image
      put_memories_upload_rejects put_groups_missing delete_groups_missing split: promise.splits)

theorem missing_id_not_found_witness:
  "findById 102 (memories world_one) = None
   \<and> findGroupById 7 (groups world_one) = None
   \<and> delete_memories env_ok 102 world_one =
       (respond 404 (Error ''Memory not found''), world_one\<lparr>calls := [MemoryFindById 102]\<rparr>)
   \<and> put_memories env_ok 102 \<lparr>req_body = body_beach, req_image = None\<rparr> world_one =
       (respond 404 (Error ''Memory not found''), world_one\<lparr>calls := [MemoryFindById 102]\<rparr>)
   \<and> put_memories env_ok 102 \<lparr>req_body = body_beach, req_image = Some blob_png\<rparr> world_one =
       (respond 404 (Error ''Memory not found''),
        world_one\<lparr>calls := [MediaStore blob_png, MemoryFindById 102]\<rparr>)
   \<and> put_groups env_ok 7 \<lparr>b_name = Some (js ''Trips''), b_group_description = None, b_memoryIds = None\<rparr>
        world_one =
       (respond 404 (Error ''Group not found''),
        world_one\<lparr>calls := [GroupFindByIdAndUpdate 7
           \<lparr>b_name = Some (js ''Trips''), b_group_description = None, b_memoryIds = None\<rparr>]\<rparr>)
   \<and> delete_groups 7 world_one =
       (respond 404 (Error ''Group not found''), world_one\<lparr>calls := [GroupFindByIdAndDelete 7]\<rparr>)"
proof -
  have m: "findById 102 (memories world_one) = None"
    by (simp add: world_one_def memory_one_def findById_def)
  have g: "findGroupById 7 (groups world_one) = None"
    by (simp add: world_one_def findGroupById_def)
  have c: "calls world_one = []"
    by (simp add: world_one_def)
  show ?thesis
    using m g missing_id_not_found [OF m g, of env_ok body_beach blob_png
        "\<lparr>b_name = Some (js ''Trips''), b_group_description = None, b_memoryIds = None\<rparr>"]
    by (simp add: c handle_file_png)
qed

subsection \<open>Update(Memory) with only a description\<close>

text \<open>
  C5. In every state the application reaches from empty collections, an Update(Memory)
  of an existing row that supplies only \<open>description\<close> and no image is answered 200
  and leaves \<open>title\<close>, \<open>date\<close>, \<open>special\<close>, \<open>imageUrl\<close>,
  \<open>imagePublicId\<close> (and \<open>createdAt\<close>) of the row as they were. The description
  becomes the supplied one; an empty string is falsy and leaves it as it was.
\<close>

theorem put_memories_description_only:
  assumes "findById i (memories (run script empty_world)) = Some m"
  shows "\<exists>m'. findById i (memories (snd (put_memories e i
                  \<lparr>req_body = \<lparr>b_title = None, b_date = None, b_description = Some d,
                                b_special = None\<rparr>,
                   req_image = None\<rparr> (run script empty_world)))) = Some m'
            \<and> title m' = title m \<and> date m' = date m \<and> special m' = special m
            \<and> imageUrl m' = imageUrl m \<and> imagePublicId m' = imagePublicId m
            \<and> createdAt m' = createdAt m
            \<and> description m' = (if d = [] then description m else Some d)"
proof -
  let ?w = "run script empty_world"
  let ?req = "\<lparr>req_body = \<lparr>b_title = None, b_date = None, b_description = Some d,
                              b_special = None\<rparr>, req_image = None\<rparr>"
  let ?m1 = "m\<lparr>description := (if d = [] then description m else Some d)\<rparr>"
  have ok: "row_ok m"
    using reachable_rows_ok assms by (rule rows_ok_findById)
  then have m1: "assign_body_fields e (req_body ?req) m = ?m1"
    by (simp add: assign_body_fields_def row_ok_def truthy_def js_or_def)
  have valid: "memory_validate ?m1"
    using ok by (simp add: row_ok_def memory_validate_def truthy_def)
  have "put_memories e i ?req ?w =
          (respond 200 (MemoryDoc ?m1),
           ?w\<lparr>memories := map (\<lambda>x. if mem_id x = i then ?m1 else x) (memories ?w),
               calls := calls ?w @ [MemoryFindById i, MemorySave i]\<rparr>)"
    using put_memories_found_no_image [OF assms, of ?req e] m1 valid by simp
  moreover have "mem_id ?m1 = i"
    using findById_mem_id [OF assms] by simp
  ultimately have "findById i (memories (snd (put_memories e i ?req ?w))) = Some ?m1"
    using assms by (simp add: findById_replace)
  then show ?thesis
    by simp
qed

text \<open>The hypothesis holds, and the theorem applies, to the memory created by \<open>script_one\<close>.\<close>

theorem put_memories_description_only_witness:
  "findById 101 (memories (run script_one empty_world)) = Some memory_created
   \<and> (\<exists>m'. findById 101 (memories (snd (put_memories env_ok 101
                  \<lparr>req_body = \<lparr>b_title = None, b_date = None, b_description = Some (js ''Rain''),
                                b_special = None\<rparr>,
                   req_image = None\<rparr> (run script_one empty_world)))) = Some m'
          \<and> title m' = Some (js ''Beach'')
          \<and> imagePublicId m' = Some (js ''memories/new'')
          \<and> description m' = Some (js ''Rain''))"
proof -
  have h: "findById 101 (memories (run script_one empty_world)) = Some memory_created"
    by (simp add: run_script_one findById_def memory_created_def)
  show ?thesis
    using h put_memories_description_only [OF h, of env_ok "js ''Rain''"]
    by (auto simp: memory_created_def js_def)
qed

subsection \<open>List(Memory)\<close>

text \<open>
  C6 as stated fails: the order is descending, not strictly descending. \<open>createdAt\<close>
  defaults to \<open>Date.now\<close>, so two memories created in the same millisecond carry the
  same timestamp, and the list returned for them has two equal neighbours.
\<close>

theorem get_memories_ties_counterexample:
  "payload (fst (get_memories (run script_two empty_world))) =
     MemoryDocs [memory_created, memory_created\<lparr>mem_id := 102\<rparr>]
   \<and> \<not> strictly_descending [memory_created, memory_created\<lparr>mem_id := 102\<rparr>]"
  by (simp add: run_script_two get_memories_def sort_createdAt_desc_def respond_def
      strictly_descending_def memory_created_def)

text \<open>
  C6, amended. List(Memory) answers 200 with every row of the collection, each as often
  as it is stored, in descending order of \<open>createdAt\<close> (equal timestamps may be
  neighbours); when the timestamps of the rows are pairwise distinct the order is strictly
  descending. Nothing is filtered or paged, and the collection is unchanged.
\<close>

theorem get_memories_sorted:
  "fst (get_memories w) = respond 200 (MemoryDocs (sort_createdAt_desc (memories w)))
   \<and> mset (sort_createdAt_desc (memories w)) = mset (memories w)
   \<and> descending (sort_createdAt_desc (memories w))
   \<and> (distinct (map createdAt (memories w)) \<longrightarrow>
        strictly_descending (sort_createdAt_desc (memories w)))
   \<and> memories (snd (get_memories w)) = memories w"
  by (simp add: get_memories_def log_def descending_sort mset_sort_createdAt_desc
      strictly_descending_sort)

theorem get_memories_sorted_witness:
  "distinct (map createdAt (memories (run script_later empty_world)))
   \<and> strictly_descending (sort_createdAt_desc (memories (run script_later empty_world)))
   \<and> fst (get_memories (run script_later empty_world)) =
       respond 200 (MemoryDocs [memory_created\<lparr>mem_id := 102, createdAt := 2000\<rparr>,
                                memory_created])"
proof -
  have d: "distinct (map createdAt (memories (run script_later empty_world)))"
    by (simp add: run_script_later memory_created_def)
  have s: "sort_createdAt_desc (memories (run script_later empty_world)) =
             [memory_created\<lparr>mem_id := 102, createdAt := 2000\<rparr>, memory_created]"
    by (simp add: run_script_later sort_createdAt_desc_def memory_created_def)
  show ?thesis
    using d get_memories_sorted [of "run script_later empty_world"]
    by (simp add: s)
qed

subsection \<open>Update(Group)\<close>

text \<open>
  C7. For an existing Group, Update(Group) passes the three body fields to
  \<open>findByIdAndUpdate\<close> as they are, absent ones as \<open>undefined\<close>, and answers 200 with
  the row after the update. Every field given in the body overwrites the stored value
  (the name through the \<open>trim\<close> setter, \<open>memoryIds\<close> also when it is the empty
  list); a field absent from the body is kept or overwritten with null, as the store
  treats \<open>undefined\<close>.
\<close>

theorem put_groups_replaces_fields:
  assumes "findGroupById i (groups w) = Some g"
  shows "\<exists>g'. fst (put_groups e i b w) = respond 200 (GroupDoc g')
            \<and> findGroupById i (groups (snd (put_groups e i b w))) = Some g'
            \<and> new_calls w (snd (put_groups e i b w)) = [GroupFindByIdAndUpdate i b]
            \<and> name g' =
                (case b_name b of
                   Some v \<Rightarrow> Some (trim v)
                 | None \<Rightarrow> if omit_undefined e then name g else None)
            \<and> group_description g' =
                (case b_group_description b of
                   Some v \<Rightarrow> Some v
                 | None \<Rightarrow> if omit_undefined e then group_description g else None)
            \<and> memoryIds g' =
                (case b_memoryIds b of
                   Some ids \<Rightarrow> Some ids
                 | None \<Rightarrow> if omit_undefined e then memoryIds g else None)
            \<and> grp_id g' = grp_id g \<and> group_createdAt g' = group_createdAt g"
proof -
  have "grp_id (apply_update e b g) = i"
    using findGroupById_grp_id [OF assms] by simp
  then have "findGroupById i (groups (snd (put_groups e i b w))) = Some (apply_update e b g)"
    using assms by (simp add: put_groups_found findGroupById_replace)
  then show ?thesis
    using assms by (simp add: put_groups_found) (simp add: apply_update_def)
qed

theorem put_groups_replaces_fields_witness:
  "findGroupById 7 (groups world_group) = Some group_one
   \<and> (\<exists>g'. fst (put_groups env_nullify 7
                  \<lparr>b_name = Some (js '' Tours ''), b_group_description = None, b_memoryIds = Some []\<rparr>
                  world_group) = respond 200 (GroupDoc g')
          \<and> name g' = Some (js ''Tours'') \<and> group_description g' = None \<and> memoryIds g' = Some [])"
proof -
  have h: "findGroupById 7 (groups world_group) = Some group_one"
    by (simp add: world_group_def group_one_def findGroupById_def)
  have t: "trim (js '' Tours '') = js ''Tours''"
    by (simp add: trim_def is_space_def js_def)
  show ?thesis
    using h put_groups_replaces_fields [OF h, of env_nullify
        "\<lparr>b_name = Some (js '' Tours ''), b_group_description = None, b_memoryIds = Some []\<rparr>"]
    by (auto simp: t env_nullify_def env_ok_def)
qed

subsection \<open>Create(Group), then Read\<close>

text \<open>
  C8. A Create(Group) with a valid name and a fresh \<open>_id\<close> is answered 201, and the
  list read afterwards ends with the created Group, whose \<open>memoryIds\<close> is the list of
  the request in the order given (for the body \<open>[a, b]\<close>, the list \<open>[a, b]\<close>) and the
  empty list when the request has none.
\<close>

theorem post_groups_round_trip:
  assumes "truthy (map_option trim n)"
    and "nid \<notin> set (map grp_id (groups w))"
  shows "\<exists>g. fst (post_groups nid now \<lparr>b_name = n, b_group_description = d, b_memoryIds = ids\<rparr> w) =
               respond 201 (GroupDoc g)
           \<and> fst (get_groups (snd (post_groups nid now
                   \<lparr>b_name = n, b_group_description = d, b_memoryIds = ids\<rparr> w))) =
               respond 200 (GroupDocs (groups w @ [g]))
           \<and> grp_id g = nid
           \<and> memoryIds g = (case ids of None \<Rightarrow> Some [] | Some xs \<Rightarrow> Some xs)"
proof -
  let ?b = "\<lparr>b_name = n, b_group_description = d, b_memoryIds = ids\<rparr>"
  have p: "post_groups nid now ?b w =
             (respond 201 (GroupDoc (new_group nid now ?b)),
              w\<lparr>groups := groups w @ [new_group nid now ?b],
                calls := calls w @ [GroupInsert nid]\<rparr>)"
    using assms by (simp add: post_groups_fresh)
  show ?thesis
    by (rule exI [of _ "new_group nid now ?b"])
       (simp add: p get_groups_def new_group_def split: option.splits)
qed

theorem post_groups_round_trip_witness:
  "truthy (map_option trim (Some (js ''Trips'')))
   \<and> 8 \<notin> set (map grp_id (groups world_group))
   \<and> (\<exists>g. fst (post_groups 8 600
               \<lparr>b_name = Some (js ''Trips''), b_group_description = None, b_memoryIds = Some [101, 102]\<rparr>
               world_group) = respond 201 (GroupDoc g)
          \<and> fst (get_groups (snd (post_groups 8 600
               \<lparr>b_name = Some (js ''Trips''), b_group_description = None, b_memoryIds = Some [101, 102]\<rparr>
               world_group))) = respond 200 (GroupDocs (groups world_group @ [g]))
          \<and> grp_id g = 8
          \<and> memoryIds g = Some [101, 102])
   \<and> (\<exists>g. fst (post_groups 8 600
               \<lparr>b_name = Some (js ''Trips''), b_group_description = None, b_memoryIds = None\<rparr>
               world_group) = respond 201 (GroupDoc g)
          \<and> memoryIds g = Some [])"
proof -
  have n: "truthy (map_option trim (Some (js ''Trips'')))"
    by (simp add: truthy_def trim_def is_space_def js_def)
  have f: "8 \<notin> set (map grp_id (groups world_group))"
    by (simp add: world_group_def group_one_def)
  show ?thesis
    using n f
      post_groups_round_trip [OF n f, of 600 None "Some [101, 102]"]
      post_groups_round_trip [OF n f, of 600 None None]
    by auto
qed

subsection \<open>The two image fields\<close>

text \<open>
  C9. Whatever the request, a row found after it has the pair
  (\<open>imageUrl\<close>, \<open>imagePublicId\<close>) it had before, or the pair the media host returned
  to this request: no request changes one of the two fields alone. After a create
  answered 201, and after an update with an image answered 200, the stored pair of the
  row is the pair the media host returned.
\<close>

theorem image_fields_written_together:
  "(findById i (memories (snd (serve e rq w))) = Some m' \<longrightarrow>
       map_option image_pair (findById i (memories w)) = Some (image_pair m')
     \<or> uploaded_pair e rq = Some (image_pair m'))
   \<and> (status (fst (post_memories e nid now req w)) = 201 \<longrightarrow>
       upload_result e (req_image req) \<noteq> None
     \<and> map_option image_pair (findById nid (memories (snd (post_memories e nid now req w)))) =
         upload_result e (req_image req))
   \<and> (status (fst (put_memories e j req w)) = 200 \<and> req_image req \<noteq> None \<longrightarrow>
       upload_result e (req_image req) \<noteq> None
     \<and> map_option image_pair (findById j (memories (snd (put_memories e j req w)))) =
         upload_result e (req_image req))"
proof (intro conjI impI)
  assume a: "findById i (memories (snd (serve e rq w))) = Some m'"
  show "map_option image_pair (findById i (memories w)) = Some (image_pair m')
      \<or> uploaded_pair e rq = Some (image_pair m')"
  proof (cases rq)
    case (PostMemories nid' now' req')
    with a show ?thesis using post_memories_pairs [of i e nid' now' req' w m'] by simp
  next
    case (PutMemories j' req')
    with a show ?thesis using put_memories_pairs [of i e j' req' w m'] by simp
  next
    case (DeleteMemories j')
    with a show ?thesis using delete_memories_pairs [of i e j' w m'] by simp
  qed (use a in \<open>simp_all add: other_routes_memories\<close>)
next
  assume s: "status (fst (post_memories e nid now req w)) = 201"
  show "upload_result e (req_image req) \<noteq> None"
    using s
    by (cases "req_image req"; cases "handle_file e (the (req_image req))")
       (auto simp: post_memories_no_image post_memories_upload_rejects respond_def)
  show "map_option image_pair (findById nid (memories (snd (post_memories e nid now req w)))) =
         upload_result e (req_image req)"
    using s
    by (cases "req_image req"; cases "handle_file e (the (req_image req))")
       (auto simp: post_memories_no_image post_memories_upload_rejects post_memories_image
          respond_def findById_append findById_fresh image_pair_def split: if_splits)
next
  assume s: "status (fst (put_memories e j req w)) = 200 \<and> req_image req \<noteq> None"
  then obtain b where b: "req_image req = Some b" by auto
  have both: "upload_result e (req_image req) \<noteq> None
     \<and> map_option image_pair (findById j (memories (snd (put_memories e j req w)))) =
         upload_result e (req_image req)"
  proof (cases "handle_file e b")
    case Rejects
    with s b show ?thesis by (simp add: put_memories_upload_rejects respond_def)
  next
    case (Resolves f)
    show ?thesis
    proof (cases "findById j (memories w)")
      case None
      with s b Resolves show ?thesis by (simp add: put_memories_missing_image respond_def)
    next
      case (Some m)
      with s b Resolves findById_mem_id [OF Some] show ?thesis
        by (auto simp: put_memories_found_image respond_def findById_replace image_pair_def
            split: if_splits promise.splits)
    qed
  qed
  from both show "upload_result e (req_image req) \<noteq> None" ..
  from both show "map_option image_pair (findById j (memories (snd (put_memories e j req w)))) =
         upload_result e (req_image req)" ..
qed

theorem image_fields_written_together_witness:
  "findById 101 (memories (snd (serve env_ok (PutMemories 101 request_new_image) world_one))) =
     Some (memory_one\<lparr>imageUrl := Some (js ''https://res.cloudinary.com/demo/new.png''),
                       imagePublicId := Some (js ''memories/new'')\<rparr>)
   \<and> uploaded_pair env_ok (PutMemories 101 request_new_image) =
       Some (Some (js ''https://res.cloudinary.com/demo/new.png''), Some (js ''memories/new''))
   \<and> status (fst (post_memories env_ok 101 1000 request_create empty_world)) = 201
   \<and> map_option image_pair
        (findById 101 (memories (snd (post_memories env_ok 101 1000 request_create empty_world)))) =
       Some (Some (js ''https://res.cloudinary.com/demo/new.png''), Some (js ''memories/new''))
   \<and> status (fst (put_memories env_ok 101 request_new_image world_one)) = 200
   \<and> req_image request_new_image \<noteq> None
   \<and> map_option image_pair
        (findById 101 (memories (snd (put_memories env_ok 101 request_new_image world_one)))) =
       Some (Some (js ''https://res.cloudinary.com/demo/new.png''), Some (js ''memories/new''))"
proof -
  let ?m = "memory_one\<lparr>imageUrl := Some (js ''https://res.cloudinary.com/demo/new.png''),
                        imagePublicId := Some (js ''memories/new'')\<rparr>"
  have a: "findById 101 (memories (snd (serve env_ok (PutMemories 101 request_new_image)
             world_one))) = Some ?m"
    by (simp add: sample_defs route_defs)
  have b: "status (fst (post_memories env_ok 101 1000 request_create empty_world)) = 201"
    by (simp add: sample_defs route_defs)
  have c: "status (fst (put_memories env_ok 101 request_new_image world_one)) = 200
           \<and> req_image request_new_image \<noteq> None"
    by (simp add: sample_defs route_defs)
  have u: "upload_result env_ok (Some blob_png) =
             Some (Some (js ''https://res.cloudinary.com/demo/new.png''), Some (js ''memories/new''))"
    by (simp add: handle_file_png)
  have r: "req_image request_new_image = Some blob_png" "req_image request_create = Some blob_png"
    by (simp_all add: request_new_image_def request_create_def)
  show ?thesis
    using a b c
      image_fields_written_together [of 101 env_ok "PutMemories 101 request_new_image" world_one
        ?m 102 1000 request_new_image 101]
      image_fields_written_together [of 101 env_ok "PostMemories 101 1000 request_create"
        empty_world memory_created 101 1000 request_create 101]
    by (simp add: u r)
qed

subsection \<open>Update(Memory) with an image on an id that is not in the store\<close>

text \<open>
  C10. A PUT that attaches an image and names an id that is not in the store makes
  exactly one call to the media host, the store call of the upload middleware, and
  changes no row. When the media host accepts the blob the answer is 404: the blob is
  stored and no row refers to it through this request, and no destroy call follows.
\<close>

theorem put_memories_missing_id_orphans_blob:
  assumes "findById i (memories w) = None"
    and "req_image req = Some b"
  shows "media_calls (new_calls w (snd (put_memories e i req w))) = [MediaStore b]
       \<and> memories (snd (put_memories e i req w)) = memories w
       \<and> fst (put_memories e i req w) =
           (case handle_file e b of
              Resolves f \<Rightarrow> respond 404 (Error ''Memory not found'')
            | Rejects \<Rightarrow> respond 500 ErrorPage)"
  using assms
  by (cases "handle_file e b")
     (simp_all add: put_memories_missing_image put_memories_upload_rejects media_calls_def)

theorem put_memories_missing_id_orphans_blob_witness:
  "findById 102 (memories world_one) = None
   \<and> req_image request_new_image = Some blob_png
   \<and> media_calls (new_calls world_one (snd (put_memories env_ok 102 request_new_image world_one))) =
       [MediaStore blob_png]
   \<and> memories (snd (put_memories env_ok 102 request_new_image world_one)) = memories world_one
   \<and> fst (put_memories env_ok 102 request_new_image world_one) =
       respond 404 (Error ''Memory not found'')"
proof -
  have m: "findById 102 (memories world_one) = None"
    by (simp add: world_one_def memory_one_def findById_def)
  have r: "req_image request_new_image = Some blob_png"
    by (simp add: request_new_image_def)
  show ?thesis
    using m r put_memories_missing_id_orphans_blob [OF m r, of env_ok]
    by (simp add: handle_file_png)
qed

end
